theory Spec2Isabelle
  imports Complex_Main
begin

section \<open>Audio capture with voice-activity segmentation (audio.py)\<close>

text \<open>
  Samples are kept abstract (type \<open>'a\<close>): the code only appends, concatenates, slices
  and hashes them. A chunk (numpy array) is a list of samples. Python integers are
  \<open>int\<close>. Clock readings and probabilities are \<open>real\<close>: the code only compares
  them and adds the cooldown duration once.
\<close>

subsection \<open>VoiceActivityDetector\<close>

text \<open>
  The Silero model is external and stateful. Its answers are inputs of the model (the
  probability it returns for a chunk); the calls made on it are recorded in order.
\<close>

datatype model_call = Forward | ResetStates

record VoiceActivityDetector =
  threshold :: real
  model_calls :: "model_call list"

definition is_speech ::
  "VoiceActivityDetector \<Rightarrow> 'a list \<Rightarrow> real \<Rightarrow> (bool \<times> real) \<times> VoiceActivityDetector" where
  "is_speech v audio_chunk speech_prob =
     (if length audio_chunk = 0 then ((False, 0), v)
      else ((speech_prob > threshold v, speech_prob),
            v\<lparr>model_calls := model_calls v @ [Forward]\<rparr>))"

definition vad_reset :: "VoiceActivityDetector \<Rightarrow> VoiceActivityDetector" where
  "vad_reset v = v\<lparr>model_calls := model_calls v @ [ResetStates]\<rparr>"

subsection \<open>AudioCapture\<close>

record 'a AudioCapture =
  vad :: VoiceActivityDetector
  speech_queue :: "'a list list"
  speech_buffer :: "'a list list"
  silence_chunks :: int
  speech_chunk_count :: int
  cooldown_until :: real
  recent_hashes :: "string list"

definition max_silence_chunks :: int where "max_silence_chunks = 25"
definition min_speech_chunks :: int where "min_speech_chunks = 8"
definition cooldown_duration :: real where "cooldown_duration = 1.0"
definition max_recent :: int where "max_recent = 5"

definition AudioCapture_init :: "real \<Rightarrow> 'a AudioCapture" where
  "AudioCapture_init vad_threshold =
     \<lparr>vad = \<lparr>threshold = vad_threshold, model_calls = []\<rparr>,
      speech_queue = [], speech_buffer = [], silence_chunks = 0,
      speech_chunk_count = 0, cooldown_until = 0.0, recent_hashes = []\<rparr>"

text \<open>\<open>audio[::100]\<close>: the samples at indices 0, 100, 200, ...\<close>

function downsample :: "'a list \<Rightarrow> 'a list" where
  "downsample [] = []"
| "downsample (x # xs) = x # downsample (drop 99 xs)"
  by pat_completeness auto
termination
  by (relation "measure length") auto

text \<open>
  \<open>_hash_audio\<close>. The parameter \<open>md5_hex\<close> stands for
  \<open>hashlib.md5(a.tobytes()).hexdigest()\<close>, a function of the array's content.
\<close>

definition hash_audio :: "('a list \<Rightarrow> string) \<Rightarrow> 'a list \<Rightarrow> string" where
  "hash_audio md5_hex audio = (let downsampled = downsample audio in take 16 (md5_hex downsampled))"

text \<open>
  One chunk taken from \<open>audio_queue\<close> by the loop of \<open>_process_audio\<close>, with what the
  environment answers during that iteration: the clock at the cooldown check, the model's
  probability for the chunk, and the clock when the cooldown is started.
\<close>

record 'a tick =
  chunk :: "'a list"
  time_check :: real
  speech_prob :: real
  time_arm :: real

text \<open>
  Lines 129-133, the duplicate check on a finished utterance: whether its hash is new,
  and the recent hashes afterwards. \<open>pop(0)\<close> removes the oldest one.
\<close>

definition check_duplicate ::
  "('a list \<Rightarrow> string) \<Rightarrow> string list \<Rightarrow> 'a list \<Rightarrow> bool \<times> string list" where
  "check_duplicate md5_hex recent full_audio =
     (let audio_hash = hash_audio md5_hex full_audio
      in if audio_hash \<notin> set recent then
           let appended = recent @ [audio_hash]
           in (True, if int (length appended) > max_recent then tl appended else appended)
         else (False, recent))"

text \<open>Lines 126-139: a long enough utterance is emitted unless it is a duplicate.\<close>

definition emit_utterance ::
  "('a list \<Rightarrow> string) \<Rightarrow> 'a AudioCapture \<Rightarrow> real \<Rightarrow> 'a AudioCapture" where
  "emit_utterance md5_hex s now =
     (let full_audio = concat (speech_buffer s);
          (fresh, recent) = check_duplicate md5_hex (recent_hashes s) full_audio
      in if fresh then
           s\<lparr>recent_hashes := recent,
             speech_queue := speech_queue s @ [full_audio],
             cooldown_until := now + cooldown_duration\<rparr>
         else s)"

text \<open>Lines 141-145, the reset of the segmentation state and of the classifier.\<close>

definition reset_state :: "'a AudioCapture \<Rightarrow> 'a AudioCapture" where
  "reset_state s =
     s\<lparr>speech_buffer := [], speech_chunk_count := 0, silence_chunks := 0,
       vad := vad_reset (vad s)\<rparr>"

text \<open>Lines 125-145: the end of an utterance.\<close>

definition end_of_utterance ::
  "('a list \<Rightarrow> string) \<Rightarrow> 'a AudioCapture \<Rightarrow> real \<Rightarrow> 'a AudioCapture" where
  "end_of_utterance md5_hex s now =
     (let s1 = (if speech_chunk_count s \<ge> min_speech_chunks
                then emit_utterance md5_hex s now else s)
      in reset_state s1)"

text \<open>Line 106, the cooldown check.\<close>

definition cooldown_active :: "'a AudioCapture \<Rightarrow> real \<Rightarrow> bool" where
  "cooldown_active s now = (now < cooldown_until s)"

text \<open>The body of the loop of \<open>_process_audio\<close> for one chunk (lines 105-145).\<close>

definition process_audio :: 
  "('a list \<Rightarrow> string) \<Rightarrow> 'a AudioCapture \<Rightarrow> 'a tick \<Rightarrow> 'a AudioCapture" where
  "process_audio md5_hex s t =
     (if cooldown_active s (time_check t) then s
      else
        let (res, v) = is_speech (vad s) (chunk t) (speech_prob t);
            s1 = s\<lparr>vad := v\<rparr>
        in if fst res then
             s1\<lparr>speech_buffer := speech_buffer s1 @ [chunk t],
                speech_chunk_count := speech_chunk_count s1 + 1,
                silence_chunks := 0\<rparr>
           else if speech_buffer s1 \<noteq> [] then
             let s2 = s1\<lparr>silence_chunks := silence_chunks s1 + 1\<rparr>;
                 s3 = (if silence_chunks s2 \<le> 3
                       then s2\<lparr>speech_buffer := speech_buffer s2 @ [chunk t]\<rparr> else s2)
             in if silence_chunks s3 \<ge> max_silence_chunks
                then end_of_utterance md5_hex s3 (time_arm t)
                else s3
           else s1)"

text \<open>
  The duplicate check applied to a sequence of finished utterances, as successive
  completions apply it: the answers, and the recent hashes at the end.
\<close>

fun check_duplicates ::
  "('a list \<Rightarrow> string) \<Rightarrow> string list \<Rightarrow> 'a list list \<Rightarrow> bool list \<times> string list" where
  "check_duplicates md5_hex recent [] = ([], recent)"
| "check_duplicates md5_hex recent (a # as) =
     (let (fresh, recent1) = check_duplicate md5_hex recent a;
          (rest, recent2) = check_duplicates md5_hex recent1 as
      in (fresh # rest, recent2))"

text \<open>Whether \<open>is_speech\<close> classifies the chunk of a tick as speech.\<close>

definition classified_speech :: "VoiceActivityDetector \<Rightarrow> 'a tick \<Rightarrow> bool" where
  "classified_speech v t = fst (fst (is_speech v (chunk t) (speech_prob t)))"

text \<open>The loop over the chunks that arrive, in order.\<close>

fun run_audio ::
  "('a list \<Rightarrow> string) \<Rightarrow> 'a AudioCapture \<Rightarrow> 'a tick list \<Rightarrow> 'a AudioCapture" where
  "run_audio md5_hex s [] = s"
| "run_audio md5_hex s (t # ts) = run_audio md5_hex (process_audio md5_hex s t) ts"

section \<open>Speaker identification and the verification filter (speaker.py)\<close>

subsection \<open>SpeakerIdentifier\<close>

datatype exn = Exception

text \<open>A Python float that may be NaN: every comparison with NaN is false.\<close>

datatype pyfloat = Float real | NaN

fun float_ge :: "pyfloat \<Rightarrow> real \<Rightarrow> bool" where
  "float_ge (Float x) t = (x \<ge> t)"
| "float_ge NaN t = False"

text \<open>
  What the libraries answer during one call: whether SpeechBrain can be imported
  (\<open>_get_speaker_recognition\<close>), what loading the model gives, what lines 105-111 give
  for a model and an audio (an embedding, or an exception), and what lines 162-167 compute
  from the two embeddings (the cosine similarity, or an exception).
\<close>

record ('a, 'm, 'e) speaker_env =
  import_ok :: bool
  from_hparams :: "exn + 'm"
  encode_batch :: "'m \<Rightarrow> 'a list \<Rightarrow> exn + 'e"
  cosine_similarity :: "'e \<Rightarrow> 'e \<Rightarrow> exn + pyfloat"

record ('m, 'e) SpeakerIdentifier =
  config_threshold :: real
  enrolled_embedding :: "'e option"
  model :: "'m option"

text \<open>\<open>SpeakerConfig.threshold\<close>'s default.\<close>

definition default_threshold :: real where "default_threshold = 0.25"

definition SpeakerIdentifier_init :: "'e option \<Rightarrow> ('m, 'e) SpeakerIdentifier" where
  "SpeakerIdentifier_init loaded =
     \<lparr>config_threshold = default_threshold, enrolled_embedding = loaded, model = None\<rparr>"

definition is_enrolled :: "('m, 'e) SpeakerIdentifier \<Rightarrow> bool" where
  "is_enrolled i = (enrolled_embedding i \<noteq> None)"

text \<open>
  A call that may raise returns \<open>Inl\<close> the exception; the identifier is returned too, since
  what was assigned before the exception stays assigned.
\<close>

definition ensure_model ::
  "('a, 'm, 'e) speaker_env \<Rightarrow> ('m, 'e) SpeakerIdentifier \<Rightarrow>
   (exn + bool) \<times> ('m, 'e) SpeakerIdentifier" where
  "ensure_model env i =
     (if model i = None then
        (if \<not> import_ok env then (Inr False, i)
         else case from_hparams env of
                Inl e \<Rightarrow> (Inl e, i)
              | Inr m \<Rightarrow> (Inr True, i\<lparr>model := Some m\<rparr>))
      else (Inr True, i))"

definition get_embedding ::
  "('a, 'm, 'e) speaker_env \<Rightarrow> ('m, 'e) SpeakerIdentifier \<Rightarrow> 'a list \<Rightarrow>
   (exn + 'e option) \<times> ('m, 'e) SpeakerIdentifier" where
  "get_embedding env i audio =
     (case ensure_model env i of
        (Inl e, i') \<Rightarrow> (Inl e, i')
      | (Inr ok, i') \<Rightarrow>
          if \<not> ok then (Inr None, i')
          else (case model i' of
                  None \<Rightarrow> (Inl Exception, i')
                | Some m \<Rightarrow>
                    (case encode_batch env m audio of
                       Inl e \<Rightarrow> (Inl e, i')
                     | Inr embedding \<Rightarrow> (Inr (Some embedding), i'))))"

definition verify ::
  "('a, 'm, 'e) speaker_env \<Rightarrow> ('m, 'e) SpeakerIdentifier \<Rightarrow> 'a list \<Rightarrow>
   (bool \<times> pyfloat) \<times> ('m, 'e) SpeakerIdentifier" where
  "verify env i audio =
     (if \<not> is_enrolled i then ((True, Float 1.0), i)
      else
        (case get_embedding env i audio of
           (Inl e, i') \<Rightarrow> ((True, Float 0.0), i')
         | (Inr None, i') \<Rightarrow> ((True, Float 1.0), i')
         | (Inr (Some embedding), i') \<Rightarrow>
             (case enrolled_embedding i' of
                None \<Rightarrow> ((True, Float 0.0), i')
              | Some enrolled \<Rightarrow>
                  (case cosine_similarity env enrolled embedding of
                     Inl e \<Rightarrow> ((True, Float 0.0), i')
                   | Inr similarity \<Rightarrow>
                       ((float_ge similarity (config_threshold i'), similarity), i')))))"

subsection \<open>SpeakerVerificationFilter\<close>

record ('a, 'm, 'e) SpeakerVerificationFilter =
  speaker_identifier :: "('m, 'e) SpeakerIdentifier"
  min_samples :: int
  sample_rate :: int
  audio_buffer :: "'a list list"
  buffer_samples :: int
  last_verified :: bool
  verification_interval :: int
  samples_since_verification :: int

text \<open>Python's \<open>int(x)\<close> on a float: truncation towards zero.\<close>

definition py_int :: "real \<Rightarrow> int" where
  "py_int x = (if x \<ge> 0 then \<lfloor>x\<rfloor> else \<lceil>x\<rceil>)"

text \<open>
  The constructor multiplies two floats and truncates. The product Python computes is the
  exact product rounded to a double, and the integer sample rate is converted to a float
  first; \<open>fmul x n\<close> stands for that computed product of the float \<open>x\<close> and the
  integer \<open>n\<close>, so nothing is assumed about the rounding.
\<close>

definition SpeakerVerificationFilter_init ::
  "(real \<Rightarrow> int \<Rightarrow> real) \<Rightarrow> ('m, 'e) SpeakerIdentifier \<Rightarrow> real \<Rightarrow> int \<Rightarrow>
   ('a, 'm, 'e) SpeakerVerificationFilter" where
  "SpeakerVerificationFilter_init fmul ident min_audio_for_verification rate =
     \<lparr>speaker_identifier = ident,
      min_samples = py_int (fmul min_audio_for_verification rate),
      sample_rate = rate,
      audio_buffer = [],
      buffer_samples = 0,
      last_verified = False,
      verification_interval = py_int (fmul 2.0 rate),
      samples_since_verification = 0\<rparr>"

text \<open>
  The exact product: what Python computes whenever the exact product is a double, as for
  0.5 * 16000 = 8000.0, for 2.0 * 16000 = 32000.0 and for 0.0 * 16000 = 0.0.
\<close>

definition exact_product :: "real \<Rightarrow> int \<Rightarrow> real" where
  "exact_product x n = x * of_int n"

text \<open>The constructor's defaults: 0.5 seconds at 16000 samples per second.\<close>

definition default_filter ::
  "('m, 'e) SpeakerIdentifier \<Rightarrow> ('a, 'm, 'e) SpeakerVerificationFilter" where
  "default_filter ident = SpeakerVerificationFilter_init exact_product ident 0.5 16000"

text \<open>Lines 232-241 of \<open>process\<close>: the audio is returned when the speaker is verified.\<close>

definition return_audio ::
  "('a, 'm, 'e) SpeakerVerificationFilter \<Rightarrow>
   (bool \<times> 'a list option) \<times> ('a, 'm, 'e) SpeakerVerificationFilter" where
  "return_audio f =
     (if last_verified f then
        let result = concat (audio_buffer f);
            f' = (if length (audio_buffer f) > 5 then
                    let kept = drop (length (audio_buffer f) - 3) (audio_buffer f)
                    in f\<lparr>audio_buffer := kept,
                         buffer_samples := sum_list (map (\<lambda>c. int (length c)) kept)\<rparr>
                  else f)
        in ((True, Some result), f')
      else ((False, None), f))"

definition process ::
  "('a, 'm, 'e) speaker_env \<Rightarrow> ('a, 'm, 'e) SpeakerVerificationFilter \<Rightarrow> 'a list \<Rightarrow>
   (bool \<times> 'a list option) \<times> ('a, 'm, 'e) SpeakerVerificationFilter" where
  "process env f audio_chunk =
     (let f1 = f\<lparr>audio_buffer := audio_buffer f @ [audio_chunk],
                 buffer_samples := buffer_samples f + int (length audio_chunk),
                 samples_since_verification :=
                   samples_since_verification f + int (length audio_chunk)\<rparr>
      in if buffer_samples f1 < min_samples f1 then ((False, None), f1)
         else if \<not> last_verified f1
                 \<or> samples_since_verification f1 \<ge> verification_interval f1 then
           let full_audio = concat (audio_buffer f1);
               (res, i') = verify env (speaker_identifier f1) full_audio;
               f2 = f1\<lparr>speaker_identifier := i', last_verified := fst res,
                       samples_since_verification := 0\<rparr>
           in if \<not> fst res then ((False, None), f2\<lparr>audio_buffer := [], buffer_samples := 0\<rparr>)
              else return_audio f2
         else return_audio f1)"

definition reset ::
  "('a, 'm, 'e) SpeakerVerificationFilter \<Rightarrow> ('a, 'm, 'e) SpeakerVerificationFilter" where
  "reset f = f\<lparr>audio_buffer := [], buffer_samples := 0, last_verified := False,
               samples_since_verification := 0\<rparr>"

text \<open>The calls a client can make on a filter, and a sequence of them.\<close>

datatype 'a filter_op = Process "'a list" | Reset

fun apply_filter_op ::
  "('a, 'm, 'e) speaker_env \<Rightarrow> ('a, 'm, 'e) SpeakerVerificationFilter \<Rightarrow> 'a filter_op \<Rightarrow>
   ('a, 'm, 'e) SpeakerVerificationFilter" where
  "apply_filter_op env f (Process c) = snd (process env f c)"
| "apply_filter_op env f Reset = reset f"

fun run_filter ::
  "('a, 'm, 'e) SpeakerVerificationFilter \<Rightarrow> (('a, 'm, 'e) speaker_env \<times> 'a filter_op) list \<Rightarrow>
   ('a, 'm, 'e) SpeakerVerificationFilter" where
  "run_filter f [] = f"
| "run_filter f ((env, x) # xs) = run_filter (apply_filter_op env f x) xs"


section \<open>The application receiving audio chunks (main.py)\<close>

text \<open>
  \<open>Yappatron._on_audio_chunk\<close> repeats the segmentation of \<open>AudioCapture\<close> without the
  duplicate check, and hands a finished utterance to \<open>_process_utterance\<close>. The messages
  sent to the server and the utterances handed to \<open>_process_utterance\<close> are recorded in
  order; \<open>utterance_queue\<close> is the transcriber's queue. The fields that \<open>AudioCapture\<close>
  has too carry the prefix \<open>y_\<close> here.
\<close>

datatype server_message = SpeechStart | SpeechEnd

record ('a, 'm, 'e) Yappatron =
  speaker :: "('m, 'e) SpeakerIdentifier option"
  y_vad :: VoiceActivityDetector
  y_speech_buffer :: "'a list list"
  y_silence_chunks :: int
  y_speech_chunk_count :: int
  y_cooldown_until :: real
  is_speaking :: bool
  paused :: bool
  server_sent :: "server_message list"
  handed_over :: "'a list list"
  utterance_queue :: "'a list list"

definition Yappatron_init ::
  "('m, 'e) SpeakerIdentifier option \<Rightarrow> ('a, 'm, 'e) Yappatron" where
  "Yappatron_init sp =
     \<lparr>speaker = sp, y_vad = \<lparr>threshold = 0.5, model_calls = []\<rparr>,
      y_speech_buffer = [], y_silence_chunks = 0, y_speech_chunk_count = 0,
      y_cooldown_until = 0.0, is_speaking = False, paused = False,
      server_sent = [], handed_over = [], utterance_queue = []\<rparr>"

text \<open>\<open>RealtimeTranscriber.transcribe_utterance\<close> puts the audio on its queue.\<close>

definition transcribe_utterance ::
  "('a, 'm, 'e) Yappatron \<Rightarrow> 'a list \<Rightarrow> ('a, 'm, 'e) Yappatron" where
  "transcribe_utterance y audio = y\<lparr>utterance_queue := utterance_queue y @ [audio]\<rparr>"

definition process_utterance ::
  "('a, 'm, 'e) speaker_env \<Rightarrow> ('a, 'm, 'e) Yappatron \<Rightarrow> 'a list \<Rightarrow> ('a, 'm, 'e) Yappatron" where
  "process_utterance env y0 audio =
     (let y = y0\<lparr>handed_over := handed_over y0 @ [audio]\<rparr>
      in case speaker y of
           None \<Rightarrow> transcribe_utterance y audio
         | Some sp \<Rightarrow>
             if is_enrolled sp then
               let (res, sp') = verify env sp audio;
                   y1 = y\<lparr>speaker := Some sp'\<rparr>
               in if \<not> fst res then y1 else transcribe_utterance y1 audio
             else transcribe_utterance y audio)"

definition on_audio_chunk ::
  "('a, 'm, 'e) speaker_env \<Rightarrow> ('a, 'm, 'e) Yappatron \<Rightarrow> 'a tick \<Rightarrow> ('a, 'm, 'e) Yappatron" where
  "on_audio_chunk env y t =
     (if paused y then y
      else if time_check t < y_cooldown_until y then y
      else
        let (res, v) = is_speech (y_vad y) (chunk t) (speech_prob t);
            y1 = y\<lparr>y_vad := v\<rparr>
        in if fst res then
             let y2 = (if \<not> is_speaking y1
                       then y1\<lparr>is_speaking := True,
                               server_sent := server_sent y1 @ [SpeechStart]\<rparr>
                       else y1)
             in y2\<lparr>y_speech_buffer := y_speech_buffer y2 @ [chunk t],
                   y_speech_chunk_count := y_speech_chunk_count y2 + 1,
                   y_silence_chunks := 0\<rparr>
           else if y_speech_buffer y1 \<noteq> [] then
             let y2 = y1\<lparr>y_silence_chunks := y_silence_chunks y1 + 1\<rparr>;
                 y3 = (if y_silence_chunks y2 \<le> 3
                       then y2\<lparr>y_speech_buffer := y_speech_buffer y2 @ [chunk t]\<rparr> else y2)
             in if y_silence_chunks y3 \<ge> max_silence_chunks then
                  let y4 = (if y_speech_chunk_count y3 \<ge> min_speech_chunks then
                              let full_audio = concat (y_speech_buffer y3)
                              in (process_utterance env y3 full_audio)
                                   \<lparr>y_cooldown_until := time_arm t + 1.0\<rparr>
                            else y3)
                  in y4\<lparr>y_speech_buffer := [], y_speech_chunk_count := 0,
                        y_silence_chunks := 0, is_speaking := False,
                        y_vad := vad_reset (y_vad y4),
                        server_sent := server_sent y4 @ [SpeechEnd]\<rparr>
                else y3
           else y1)"

text \<open>The chunks that the server delivers, in order.\<close>

fun run_chunks ::
  "('a, 'm, 'e) Yappatron \<Rightarrow> (('a, 'm, 'e) speaker_env \<times> 'a tick) list \<Rightarrow>
   ('a, 'm, 'e) Yappatron" where
  "run_chunks y [] = y"
| "run_chunks y ((env, t) # ts) = run_chunks (on_audio_chunk env y t) ts"

section \<open>Notions used in the statements\<close>

subsection \<open>End of an utterance\<close>

text \<open>
  A tick ends the utterance when its chunk is processed (not dropped), is not classified
  as speech while chunks are buffered, and brings the silence count to the maximum: the
  condition under which line 124 of audio.py (line 141 of main.py) is reached and holds.
\<close>

definition completes :: "'a AudioCapture \<Rightarrow> 'a tick \<Rightarrow> bool" where
  "completes s t =
     (\<not> cooldown_active s (time_check t) \<and> \<not> classified_speech (vad s) t \<and>
      speech_buffer s \<noteq> [] \<and> silence_chunks s + 1 \<ge> max_silence_chunks)"

definition y_dropped :: "('a, 'm, 'e) Yappatron \<Rightarrow> 'a tick \<Rightarrow> bool" where
  "y_dropped y t = (paused y \<or> time_check t < y_cooldown_until y)"

definition y_completes :: "('a, 'm, 'e) Yappatron \<Rightarrow> 'a tick \<Rightarrow> bool" where
  "y_completes y t =
     (\<not> y_dropped y t \<and> \<not> classified_speech (y_vad y) t \<and>
      y_speech_buffer y \<noteq> [] \<and> y_silence_chunks y + 1 \<ge> max_silence_chunks)"

text \<open>
  The tick puts an utterance on the speech queue: the utterance ends, is long enough and
  its hash is not among the recent ones. For \<open>Yappatron\<close>, the tick hands an utterance to
  \<open>_process_utterance\<close>.
\<close>

definition emits :: "('a list \<Rightarrow> string) \<Rightarrow> 'a AudioCapture \<Rightarrow> 'a tick \<Rightarrow> bool" where
  "emits md5_hex s t =
     (completes s t \<and> speech_chunk_count s \<ge> min_speech_chunks \<and>
      hash_audio md5_hex (concat (speech_buffer s)) \<notin> set (recent_hashes s))"

definition y_hands_over :: "('a, 'm, 'e) Yappatron \<Rightarrow> 'a tick \<Rightarrow> bool" where
  "y_hands_over y t = (y_completes y t \<and> y_speech_chunk_count y \<ge> min_speech_chunks)"

subsection \<open>Frames since the last idle state\<close>

text \<open>
  The segmentation is idle when its speech buffer is empty. For a run of the loop, the
  classifications of the chunks that were processed (not dropped) since the state was
  last idle, oldest first.
\<close>

fun frames_since_idle ::
  "('a list \<Rightarrow> string) \<Rightarrow> 'a AudioCapture \<Rightarrow> bool list \<Rightarrow> 'a tick list \<Rightarrow> bool list" where
  "frames_since_idle md5_hex s acc [] = acc"
| "frames_since_idle md5_hex s acc (t # ts) =
     (let s' = process_audio md5_hex s t;
          acc' = (if speech_buffer s' = [] then []
                  else if cooldown_active s (time_check t) then acc
                  else acc @ [classified_speech (vad s) t])
      in frames_since_idle md5_hex s' acc' ts)"

fun y_frames_since_idle ::
  "('a, 'm, 'e) Yappatron \<Rightarrow> bool list \<Rightarrow> (('a, 'm, 'e) speaker_env \<times> 'a tick) list \<Rightarrow>
   bool list" where
  "y_frames_since_idle y acc [] = acc"
| "y_frames_since_idle y acc ((env, t) # ts) =
     (let y' = on_audio_chunk env y t;
          acc' = (if y_speech_buffer y' = [] then []
                  else if y_dropped y t then acc
                  else acc @ [classified_speech (y_vad y) t])
      in y_frames_since_idle y' acc' ts)"

definition speech_count :: "bool list \<Rightarrow> int" where
  "speech_count frames = int (length (filter (\<lambda>b. b) frames))"

definition trailing_silence :: "bool list \<Rightarrow> int" where
  "trailing_silence frames = int (length (takeWhile Not (rev frames)))"

text \<open>The counters of the state agree with the frames since the last idle state.\<close>

definition counters_ok :: "'a AudioCapture \<Rightarrow> bool list \<Rightarrow> bool" where
  "counters_ok s frames =
     (speech_chunk_count s = speech_count frames \<and>
      silence_chunks s = trailing_silence frames \<and>
      (speech_buffer s = [] \<longleftrightarrow> frames = []))"

definition y_counters_ok :: "('a, 'm, 'e) Yappatron \<Rightarrow> bool list \<Rightarrow> bool" where
  "y_counters_ok y frames =
     (y_speech_chunk_count y = speech_count frames \<and>
      y_silence_chunks y = trailing_silence frames \<and>
      (y_speech_buffer y = [] \<longleftrightarrow> frames = []))"

subsection \<open>The filter's sample counter\<close>

definition samples_consistent :: "('a, 'm, 'e) SpeakerVerificationFilter \<Rightarrow> bool" where
  "samples_consistent f = (buffer_samples f = int (length (concat (audio_buffer f))))"

section \<open>Example inputs\<close>

text \<open>
  Samples are natural numbers here. The digest stand-in writes one character per sample,
  so that different subsamples get different digests.
\<close>

definition example_md5 :: "nat list \<Rightarrow> string" where
  "example_md5 xs = map (\<lambda>n. if n = 0 then CHR ''0'' else CHR ''1'') xs"

definition speech_at :: "real \<Rightarrow> nat tick" where
  "speech_at now = \<lparr>chunk = [1], time_check = now, speech_prob = 0.9, time_arm = now\<rparr>"

definition silence_at :: "real \<Rightarrow> nat tick" where
  "silence_at now = \<lparr>chunk = [0], time_check = now, speech_prob = 0.1, time_arm = now\<rparr>"

text \<open>Eight speech chunks and 24 silent ones: one silent chunk short of the end.\<close>

definition utterance_at :: "real \<Rightarrow> nat tick list" where
  "utterance_at now = replicate 8 (speech_at now) @ replicate 24 (silence_at now)"

text \<open>An utterance ended at time 10, and the same chunks again at time 20.\<close>

definition second_utterance :: "nat tick list" where
  "second_utterance = utterance_at 10 @ [silence_at 10] @ utterance_at 20"

definition example_env :: "(nat, unit, unit) speaker_env" where
  "example_env =
     \<lparr>import_ok = True, from_hparams = Inr (), encode_batch = (\<lambda>m a. Inr ()),
      cosine_similarity = (\<lambda>a b. Inr (Float 0.9))\<rparr>"

definition no_speechbrain :: "(nat, unit, unit) speaker_env" where
  "no_speechbrain = example_env\<lparr>import_ok := False\<rparr>"

definition failing_encoder :: "(nat, unit, unit) speaker_env" where
  "failing_encoder = example_env\<lparr>encode_batch := (\<lambda>m a. Inl Exception)\<rparr>"

definition other_speaker :: "(nat, unit, unit) speaker_env" where
  "other_speaker = example_env\<lparr>cosine_similarity := (\<lambda>a b. Inr (Float 0.1))\<rparr>"

definition unenrolled :: "(unit, unit) SpeakerIdentifier" where
  "unenrolled = SpeakerIdentifier_init None"

definition enrolled :: "(unit, unit) SpeakerIdentifier" where
  "enrolled = SpeakerIdentifier_init (Some ())"

text \<open>The capture one silent chunk before the end of its first utterance.\<close>

definition before_end :: "nat AudioCapture" where
  "before_end = run_audio example_md5 (AudioCapture_init 0.5) (utterance_at 10)"

text \<open>The capture one silent chunk before the end of the second, identical utterance.\<close>

definition before_second_end :: "nat AudioCapture" where
  "before_second_end = run_audio example_md5 (AudioCapture_init 0.5) second_utterance"

text \<open>The application after the same chunks, without a speaker identifier.\<close>

definition y_before_end :: "(nat, unit, unit) Yappatron" where
  "y_before_end =
     run_chunks (Yappatron_init None) (map (Pair example_env) (utterance_at 10))"

text \<open>A capture about to end an utterance, with five recent hashes.\<close>

definition full_cache :: "nat AudioCapture" where
  "full_cache =
     \<lparr>vad = \<lparr>threshold = 0.5, model_calls = []\<rparr>,
      speech_queue = [],
      speech_buffer = [[1], [1], [1], [1], [1], [1], [1], [1], [0], [0], [0]],
      silence_chunks = 24, speech_chunk_count = 8, cooldown_until = 0,
      recent_hashes = [''a'', ''b'', ''c'', ''d'', ''e'']\<rparr>"

text \<open>A filter constructed with \<open>min_audio_for_verification = 0.0\<close>.\<close>

definition no_minimum :: "(nat, unit, unit) SpeakerVerificationFilter" where
  "no_minimum = SpeakerVerificationFilter_init exact_product unenrolled 0.0 16000"

text \<open>A default filter after three chunks of 2000 samples.\<close>

definition three_chunks :: "(nat, unit, unit) SpeakerVerificationFilter" where
  "three_chunks =
     run_filter (default_filter unenrolled)
       [(example_env, Process (replicate 2000 1)), (example_env, Process (replicate 2000 2)),
        (example_env, Process (replicate 2000 3))]"

section \<open>The speaker identifier\<close>

lemma ensure_model_config:
  "ensure_model env i = (r, i') \<Longrightarrow>
     config_threshold i' = config_threshold i \<and> enrolled_embedding i' = enrolled_embedding i"
  by (auto simp: ensure_model_def split: if_splits sum.splits)

lemma get_embedding_config:
  "get_embedding env i a = (r, i') \<Longrightarrow>
     config_threshold i' = config_threshold i \<and> enrolled_embedding i' = enrolled_embedding i"
  by (auto simp: get_embedding_def split: prod.splits sum.splits if_splits option.splits
           dest: ensure_model_config)

text \<open>The model is unavailable exactly when it is not loaded and cannot be imported.\<close>

lemma get_embedding_unavailable:
  "fst (get_embedding env i a) = Inr None \<longleftrightarrow> model i = None \<and> \<not> import_ok env"
  by (auto simp: get_embedding_def ensure_model_def split: sum.splits option.splits)

text \<open>
  C7: \<open>verify\<close> always returns a pair and is fail-open. Without an enrolled speaker, or
  when the model is unavailable (\<open>_get_embedding\<close> returns \<open>None\<close>), it returns
  \<open>(True, 1.0)\<close>; when computing the embedding raises, it returns \<open>(True, 0.0)\<close>; when
  the embedding and the similarity are computed, it returns
  \<open>(similarity \<ge> threshold, similarity)\<close>; it rejects only in that last case; and the
  threshold is 0.25 by default.
\<close>

theorem verify_fail_open:
  "(\<not> is_enrolled i \<longrightarrow> fst (verify env i a) = (True, Float 1.0)) \<and>
   (is_enrolled i \<and> fst (get_embedding env i a) = Inr None \<longrightarrow>
      fst (verify env i a) = (True, Float 1.0)) \<and>
   (is_enrolled i \<and> fst (get_embedding env i a) = Inl e \<longrightarrow>
      fst (verify env i a) = (True, Float 0.0)) \<and>
   (enrolled_embedding i = Some enrolled_emb \<and>
    fst (get_embedding env i a) = Inr (Some emb) \<and>
    cosine_similarity env enrolled_emb emb = Inr similarity \<longrightarrow>
      fst (verify env i a) = (float_ge similarity (config_threshold i), similarity)) \<and>
   (\<not> fst (fst (verify env i a)) \<longrightarrow>
      (\<exists>enrolled_emb emb similarity.
         enrolled_embedding i = Some enrolled_emb \<and>
         fst (get_embedding env i a) = Inr (Some emb) \<and>
         cosine_similarity env enrolled_emb emb = Inr similarity \<and>
         \<not> float_ge similarity (config_threshold i))) \<and>
   config_threshold (SpeakerIdentifier_init loaded :: ('m, 'e) SpeakerIdentifier) = 0.25"
proof -
  obtain r i' where g: "get_embedding env i a = (r, i')"
    by (cases "get_embedding env i a")
  note c = get_embedding_config [OF g]
  show ?thesis
    using c
    by (auto simp: verify_def is_enrolled_def g SpeakerIdentifier_init_def default_threshold_def
             split: sum.splits option.splits)
qed

lemmas speaker_defs =
  verify_def get_embedding_def ensure_model_def is_enrolled_def SpeakerIdentifier_init_def
  default_threshold_def example_env_def no_speechbrain_def failing_encoder_def
  other_speaker_def unenrolled_def enrolled_def

theorem verify_fail_open_witness:
  "\<not> is_enrolled unenrolled \<and> fst (verify example_env unenrolled [1, 2]) = (True, Float 1.0) \<and>
   is_enrolled enrolled \<and> fst (get_embedding no_speechbrain enrolled [1, 2]) = Inr None \<and>
   fst (verify no_speechbrain enrolled [1, 2]) = (True, Float 1.0) \<and>
   fst (get_embedding failing_encoder enrolled [1, 2]) = Inl Exception \<and>
   fst (verify failing_encoder enrolled [1, 2]) = (True, Float 0.0) \<and>
   enrolled_embedding enrolled = Some () \<and>
   fst (get_embedding example_env enrolled [1, 2]) = Inr (Some ()) \<and>
   cosine_similarity example_env () () = Inr (Float 0.9) \<and>
   fst (verify example_env enrolled [1, 2]) = (True, Float 0.9) \<and>
   \<not> fst (fst (verify other_speaker enrolled [1, 2])) \<and>
   cosine_similarity other_speaker () () = Inr (Float 0.1) \<and>
   \<not> float_ge (Float 0.1) (config_threshold enrolled)"
proof -
  have h1: "\<not> is_enrolled unenrolled"
    by (simp add: speaker_defs)
  have h2: "is_enrolled enrolled \<and> fst (get_embedding no_speechbrain enrolled [1, 2]) = Inr None"
    by (simp add: speaker_defs)
  have h3: "is_enrolled enrolled \<and>
            fst (get_embedding failing_encoder enrolled [1, 2]) = Inl Exception"
    by (simp add: speaker_defs)
  have h4: "enrolled_embedding enrolled = Some () \<and>
            fst (get_embedding example_env enrolled [1, 2]) = Inr (Some ()) \<and>
            cosine_similarity example_env () () = Inr (Float 0.9)"
    by (simp add: speaker_defs)
  have h5: "\<not> fst (fst (verify other_speaker enrolled [1, 2]))"
    by (simp add: speaker_defs)
  have t4: "float_ge (Float 0.9) (config_threshold enrolled)"
    by (simp add: speaker_defs)
  have t5: "cosine_similarity other_speaker () () = Inr (Float 0.1) \<and>
            \<not> float_ge (Float 0.1) (config_threshold enrolled)"
    by (simp add: speaker_defs)
  from verify_fail_open [of unenrolled example_env "[1, 2]"] h1
  have c1: "fst (verify example_env unenrolled [1, 2]) = (True, Float 1.0)" by blast
  from verify_fail_open [of enrolled no_speechbrain "[1, 2]"] h2
  have c2: "fst (verify no_speechbrain enrolled [1, 2]) = (True, Float 1.0)" by blast
  from verify_fail_open [of enrolled failing_encoder "[1, 2]" Exception] h3
  have c3: "fst (verify failing_encoder enrolled [1, 2]) = (True, Float 0.0)" by blast
  from verify_fail_open [of enrolled example_env "[1, 2]" _ "()" "()" "Float 0.9"] h4
  have c4: "fst (verify example_env enrolled [1, 2]) =
              (float_ge (Float 0.9) (config_threshold enrolled), Float 0.9)" by blast
  from h1 h2 h3 h4 h5 t4 t5 c1 c2 c3 c4 show ?thesis by simp
qed

section \<open>The verification filter\<close>

lemma default_filter_config:
  "min_samples (default_filter i) = 8000"
  "verification_interval (default_filter i) = 32000"
  "audio_buffer (default_filter i) = []"
  "buffer_samples (default_filter i) = 0"
  "last_verified (default_filter i) = False"
  "samples_since_verification (default_filter i) = 0"
  "speaker_identifier (default_filter i) = i"
  by (simp_all add: default_filter_def SpeakerVerificationFilter_init_def py_int_def
        exact_product_def)

text \<open>
  C6: a call of \<open>process\<close> whose sample count after appending the chunk is below
  \<open>min_samples\<close> returns \<open>(False, None)\<close>; the filter only records the chunk, whatever
  the environment of the identifier is, and the identifier is left as it was: no
  verification is run. For the default filter \<open>min_samples\<close> is 8000.
\<close>

theorem process_below_min_samples:
  "min_samples (default_filter ident) = 8000 \<and>
   (buffer_samples f + int (length c) < min_samples f \<longrightarrow>
    process env f c =
      ((False, None),
       f\<lparr>audio_buffer := audio_buffer f @ [c],
         buffer_samples := buffer_samples f + int (length c),
         samples_since_verification := samples_since_verification f + int (length c)\<rparr>))"
  by (simp add: process_def Let_def default_filter_config)

theorem process_below_min_samples_witness:
  "buffer_samples (default_filter enrolled) + int (length (replicate 7999 (1::nat)))
     < min_samples (default_filter enrolled) \<and>
   process other_speaker (default_filter enrolled) (replicate 7999 1) =
     ((False, None),
      (default_filter enrolled)
        \<lparr>audio_buffer := [replicate 7999 1], buffer_samples := 7999,
         samples_since_verification := 7999\<rparr>)"
  using process_below_min_samples
          [of enrolled "default_filter enrolled" "replicate 7999 1" other_speaker]
  by (simp add: default_filter_config)

lemma return_audio_result:
  "return_audio f = ((True, Some audio), f') \<Longrightarrow>
     audio = concat (audio_buffer f) \<and>
     audio_buffer f' =
       (if length (audio_buffer f) > 5
        then drop (length (audio_buffer f) - 3) (audio_buffer f)
        else audio_buffer f)"
  by (auto simp: return_audio_def Let_def split: if_splits)

lemma three_chunks_state:
  "three_chunks =
     (default_filter unenrolled)
       \<lparr>audio_buffer := [replicate 2000 1, replicate 2000 2, replicate 2000 3],
        buffer_samples := 6000, samples_since_verification := 6000\<rparr>"
  by (simp add: three_chunks_def process_def default_filter_config Let_def)

lemma process_fourth_chunk:
  "process example_env three_chunks (replicate 2000 4) =
     ((True, Some (concat [replicate 2000 1, replicate 2000 2, replicate 2000 3,
                           replicate 2000 4])),
      three_chunks
        \<lparr>audio_buffer := [replicate 2000 1, replicate 2000 2, replicate 2000 3,
                          replicate 2000 4],
         buffer_samples := 8000, last_verified := True, samples_since_verification := 0\<rparr>)"
  by (simp add: three_chunks_state process_def default_filter_config Let_def return_audio_def
        speaker_defs)

text \<open>
  C3, as amended: when \<open>process\<close> returns \<open>(True, audio)\<close>, the audio is the
  concatenation of the whole buffer including the current chunk; afterwards the buffer
  holds its last 3 chunks if it held more than 5, and is unchanged otherwise.
\<close>

theorem process_verified_result:
  assumes "process env f c = ((True, Some audio), f')"
  shows "audio = concat (audio_buffer f @ [c]) \<and>
         audio_buffer f' =
           (if length (audio_buffer f @ [c]) > 5
            then drop (length (audio_buffer f @ [c]) - 3) (audio_buffer f @ [c])
            else audio_buffer f @ [c])"
  using assms
  by (auto simp: process_def Let_def split: if_splits prod.splits dest!: return_audio_result)

theorem process_verified_result_witness:
  "process example_env three_chunks (replicate 2000 4) =
     ((True, Some (concat [replicate 2000 1, replicate 2000 2, replicate 2000 3,
                           replicate 2000 4])),
      three_chunks
        \<lparr>audio_buffer := [replicate 2000 1, replicate 2000 2, replicate 2000 3,
                          replicate 2000 4],
         buffer_samples := 8000, last_verified := True, samples_since_verification := 0\<rparr>) \<and>
   concat [replicate 2000 1, replicate 2000 2, replicate 2000 3, replicate 2000 (4::nat)] =
     concat (audio_buffer three_chunks @ [replicate 2000 4])"
proof -
  note h = process_fourth_chunk
  have c: "concat [replicate 2000 1, replicate 2000 2, replicate 2000 3, replicate 2000 (4::nat)] =
           concat (audio_buffer three_chunks @ [replicate 2000 4])"
    using process_verified_result [OF h] by (rule conjunct1)
  show ?thesis using h c by (rule conjI)
qed

text \<open>
  The claim as stated fails: the fourth chunk of 2000 samples is returned as verified
  audio, and the buffer then holds four chunks, not the last three.
\<close>

theorem process_keeps_four_chunks:
  "fst (fst (process example_env three_chunks (replicate 2000 4))) \<and>
   audio_buffer (snd (process example_env three_chunks (replicate 2000 4))) =
     [replicate 2000 1, replicate 2000 2, replicate 2000 3, replicate 2000 4] \<and>
   audio_buffer (snd (process example_env three_chunks (replicate 2000 4))) \<noteq>
     drop (length (audio_buffer three_chunks @ [replicate 2000 4]) - 3)
       (audio_buffer three_chunks @ [replicate 2000 4])"
  by (simp add: process_fourth_chunk) (simp add: three_chunks_state)

lemma length_concat_int: "int (length (concat b)) = sum_list (map (\<lambda>c. int (length c)) b)"
  by (induction b) auto

lemma process_consistent:
  "samples_consistent f \<Longrightarrow> samples_consistent (snd (process env f c))"
  by (auto simp: process_def Let_def samples_consistent_def return_audio_def length_concat_int
           split: prod.splits)

lemma reset_consistent: "samples_consistent (reset f)"
  by (simp add: reset_def samples_consistent_def)

lemma init_consistent:
  "samples_consistent (SpeakerVerificationFilter_init fmul i secs rate)"
  by (simp add: SpeakerVerificationFilter_init_def samples_consistent_def)

lemma apply_filter_op_consistent:
  "samples_consistent f \<Longrightarrow> samples_consistent (apply_filter_op env f x)"
  by (cases x) (simp_all add: process_consistent reset_consistent)

lemma run_filter_consistent:
  "samples_consistent f \<Longrightarrow> samples_consistent (run_filter f xs)"
  by (induction xs arbitrary: f) (auto simp: apply_filter_op_consistent)

lemma process_config:
  "min_samples (snd (process env f c)) = min_samples f"
  "verification_interval (snd (process env f c)) = verification_interval f"
  "sample_rate (snd (process env f c)) = sample_rate f"
  by (auto simp: process_def Let_def return_audio_def split: prod.splits)

lemma run_filter_config:
  "min_samples (run_filter f xs) = min_samples f \<and>
   verification_interval (run_filter f xs) = verification_interval f \<and>
   sample_rate (run_filter f xs) = sample_rate f"
proof (induction xs arbitrary: f)
  case Nil
  show ?case by simp
next
  case (Cons a xs)
  obtain env x where a: "a = (env, x)" by (cases a)
  show ?case using Cons.IH [of "apply_filter_op env f x"]
    by (cases x) (simp_all add: a reset_def process_config)
qed

lemma process_verified_length:
  assumes "samples_consistent f" and "process env f c = ((True, Some audio), f')"
  shows "int (length audio) \<ge> min_samples f"
  using assms
  by (auto simp: process_def Let_def samples_consistent_def return_audio_def
           split: prod.splits if_splits)

text \<open>
  C10, as amended: for a filter that was constructed (with any float product) and then
  used through \<open>process\<close> and \<open>reset\<close> only, whenever \<open>process\<close> returns
  \<open>(True, audio)\<close> the audio has at least \<open>min_samples\<close> samples; it is not empty when
  \<open>min_samples\<close> is positive; and for the default filter it has at least 8000 samples
  and is not empty.
\<close>

theorem verified_audio_min_samples:
  assumes "f0 = SpeakerVerificationFilter_init fmul i secs rate"
    and "process env (run_filter f0 xs) c = ((True, Some audio), f')"
  shows "int (length audio) \<ge> min_samples f0 \<and>
         (0 < min_samples f0 \<longrightarrow> audio \<noteq> []) \<and>
         (f0 = default_filter i \<longrightarrow> 8000 \<le> int (length audio) \<and> audio \<noteq> [])"
proof -
  have "samples_consistent (run_filter f0 xs)"
    unfolding assms(1) by (rule run_filter_consistent [OF init_consistent])
  from process_verified_length [OF this assms(2)]
  have l: "int (length audio) \<ge> min_samples f0"
    by (simp add: run_filter_config)
  have d: "min_samples f0 = 8000" if "f0 = default_filter i"
    unfolding that by (rule default_filter_config(1))
  from l d show ?thesis by auto
qed

theorem verified_audio_min_samples_witness:
  "process example_env
     (run_filter (default_filter unenrolled)
        [(example_env, Process (replicate 2000 1)), (example_env, Process (replicate 2000 2)),
         (example_env, Process (replicate 2000 3))])
     (replicate 2000 4) =
     ((True, Some (concat [replicate 2000 1, replicate 2000 2, replicate 2000 3,
                           replicate 2000 4])),
      three_chunks
        \<lparr>audio_buffer := [replicate 2000 1, replicate 2000 2, replicate 2000 3,
                          replicate 2000 4],
         buffer_samples := 8000, last_verified := True, samples_since_verification := 0\<rparr>) \<and>
   0 < min_samples (default_filter unenrolled :: (nat, unit, unit) SpeakerVerificationFilter) \<and>
   8000 \<le> int (length (concat [replicate 2000 1, replicate 2000 2, replicate 2000 3,
                                 replicate 2000 (4::nat)])) \<and>
   concat [replicate 2000 1, replicate 2000 2, replicate 2000 3, replicate 2000 (4::nat)] \<noteq> []"
proof -
  have h: "process example_env
     (run_filter (default_filter unenrolled)
        [(example_env, Process (replicate 2000 1)), (example_env, Process (replicate 2000 2)),
         (example_env, Process (replicate 2000 3))])
     (replicate 2000 4) =
     ((True, Some (concat [replicate 2000 1, replicate 2000 2, replicate 2000 3,
                           replicate 2000 4])),
      three_chunks
        \<lparr>audio_buffer := [replicate 2000 1, replicate 2000 2, replicate 2000 3,
                          replicate 2000 4],
         buffer_samples := 8000, last_verified := True, samples_since_verification := 0\<rparr>)"
    using process_fourth_chunk by (simp only: three_chunks_def)
  have m: "min_samples (default_filter unenrolled :: (nat, unit, unit) SpeakerVerificationFilter)
             = 8000"
    by (simp add: default_filter_config)
  from verified_audio_min_samples [OF default_filter_def h] m h
  show ?thesis by simp
qed

text \<open>
  The claim as stated fails: a filter constructed with \<open>min_audio_for_verification = 0.0\<close>
  has \<open>min_samples = 0\<close>; given an empty chunk, the minimum check passes, the
  identifier without an enrolled speaker accepts, and the empty audio is returned as
  verified.
\<close>

theorem empty_audio_verified:
  "min_samples no_minimum = 0 \<and>
   process example_env no_minimum [] =
     ((True, Some []),
      no_minimum\<lparr>audio_buffer := [[]], last_verified := True\<rparr>)"
  by (simp add: no_minimum_def SpeakerVerificationFilter_init_def exact_product_def py_int_def
        process_def return_audio_def Let_def speaker_defs)

section \<open>The audio capture\<close>

lemmas audio_defs =
  process_audio_def cooldown_active_def is_speech_def end_of_utterance_def reset_state_def
  emit_utterance_def check_duplicate_def hash_audio_def vad_reset_def max_silence_chunks_def
  min_speech_chunks_def max_recent_def cooldown_duration_def

lemmas example_defs =
  example_md5_def speech_at_def silence_at_def utterance_at_def second_utterance_def
  AudioCapture_init_def

lemma classified_speech_eq:
  "classified_speech v t = (chunk t \<noteq> [] \<and> speech_prob t > threshold v)"
  by (simp add: classified_speech_def is_speech_def)

lemma run_audio_append: "run_audio H s (xs @ ys) = run_audio H (run_audio H s xs) ys"
  by (induction xs arbitrary: s) auto

subsection \<open>What one chunk changes\<close>

lemma process_audio_dropped:
  "cooldown_active s (time_check t) \<Longrightarrow> process_audio H s t = s"
  by (simp add: process_audio_def)

lemma process_audio_model_calls:
  "model_calls (vad (process_audio H s t)) =
     model_calls (vad s)
     @ (if cooldown_active s (time_check t) \<or> chunk t = [] then [] else [Forward])
     @ (if completes s t then [ResetStates] else [])"
  by (simp add: process_audio_def completes_def classified_speech_def is_speech_def Let_def
        vad_reset_def end_of_utterance_def reset_state_def emit_utterance_def
        split: prod.splits)

lemma process_audio_to_idle:
  "completes s t \<longleftrightarrow> speech_buffer s \<noteq> [] \<and> speech_buffer (process_audio H s t) = []"
  by (auto simp add: process_audio_def completes_def classified_speech_def is_speech_def
        Let_def end_of_utterance_def reset_state_def)

lemma process_audio_idle_after:
  "completes s t \<Longrightarrow>
     speech_buffer (process_audio H s t) = [] \<and>
     speech_chunk_count (process_audio H s t) = 0 \<and>
     silence_chunks (process_audio H s t) = 0"
  by (auto simp add: process_audio_def completes_def classified_speech_def is_speech_def
        Let_def end_of_utterance_def reset_state_def split: if_splits)

text \<open>An utterance is put on the queue, its hash recorded and the cooldown started, together.\<close>

lemma process_audio_queue:
  "speech_queue (process_audio H s t) =
     (if emits H s t then speech_queue s @ [concat (speech_buffer s)] else speech_queue s)"
  by (auto simp add: emits_def process_audio_def completes_def classified_speech_def
        is_speech_def Let_def end_of_utterance_def reset_state_def emit_utterance_def
        check_duplicate_def max_silence_chunks_def)

lemma process_audio_cooldown:
  "cooldown_until (process_audio H s t) =
     (if emits H s t then time_arm t + cooldown_duration else cooldown_until s)"
  by (auto simp add: emits_def process_audio_def completes_def classified_speech_def
        is_speech_def Let_def end_of_utterance_def reset_state_def emit_utterance_def
        check_duplicate_def max_silence_chunks_def)

lemma process_audio_recent:
  "recent_hashes (process_audio H s t) =
     (if emits H s t
      then snd (check_duplicate H (recent_hashes s) (concat (speech_buffer s)))
      else recent_hashes s)"
  by (auto simp add: emits_def process_audio_def completes_def classified_speech_def
        is_speech_def Let_def end_of_utterance_def reset_state_def emit_utterance_def
        check_duplicate_def max_silence_chunks_def)

lemma emits_queue: "emits H s t \<longleftrightarrow> speech_queue (process_audio H s t) \<noteq> speech_queue s"
  by (simp add: process_audio_queue)

subsection \<open>The recent hashes\<close>

lemma check_duplicate_length:
  "length recent \<le> 5 \<Longrightarrow> length (snd (check_duplicate H recent a)) \<le> 5"
  by (auto simp: check_duplicate_def Let_def max_recent_def)

lemma check_duplicate_full:
  "length recent = 5 \<Longrightarrow> fst (check_duplicate H recent a) \<Longrightarrow>
   snd (check_duplicate H recent a) = tl recent @ [hash_audio H a]"
  by (cases recent) (auto simp: check_duplicate_def Let_def max_recent_def split: if_splits)

lemma check_duplicate_reject:
  "\<not> fst (check_duplicate H recent a) \<Longrightarrow> snd (check_duplicate H recent a) = recent"
  by (auto simp: check_duplicate_def Let_def split: if_splits)

lemma emits_fresh:
  "emits H s t \<Longrightarrow> fst (check_duplicate H (recent_hashes s) (concat (speech_buffer s)))"
  by (simp add: emits_def check_duplicate_def Let_def)

lemma process_audio_recent_length:
  "length (recent_hashes s) \<le> 5 \<Longrightarrow> length (recent_hashes (process_audio H s t)) \<le> 5"
  by (simp add: process_audio_recent check_duplicate_length)

lemma run_audio_recent_length:
  "length (recent_hashes s) \<le> 5 \<Longrightarrow> length (recent_hashes (run_audio H s ts)) \<le> 5"
  by (induction ts arbitrary: s) (simp_all add: process_audio_recent_length)

lemma init_recent_length: "length (recent_hashes (AudioCapture_init th)) \<le> 5"
  by (simp add: AudioCapture_init_def)

text \<open>
  C8: the capture never holds more than \<open>max_recent\<close> = 5 recent hashes: in every state
  reached from the initial one, and after every chunk from a state within the bound. When
  a hash is recorded while five are held, the oldest is dropped and the new one is put
  last.
\<close>

theorem recent_hashes_bounded:
  "int (length (recent_hashes (run_audio H (AudioCapture_init th) ts))) \<le> max_recent \<and>
   (int (length (recent_hashes s)) \<le> max_recent \<longrightarrow>
      int (length (recent_hashes (process_audio H s t))) \<le> max_recent) \<and>
   (int (length (recent_hashes s)) = max_recent \<and>
    recent_hashes (process_audio H s t) \<noteq> recent_hashes s \<longrightarrow>
      recent_hashes (process_audio H s t) =
        tl (recent_hashes s) @ [hash_audio H (concat (speech_buffer s))])"
proof -
  have "length (recent_hashes (run_audio H (AudioCapture_init th) ts)) \<le> 5"
    by (rule run_audio_recent_length [OF init_recent_length])
  moreover have "length (recent_hashes s) \<le> 5 \<longrightarrow>
      length (recent_hashes (process_audio H s t)) \<le> 5"
    by (simp add: process_audio_recent_length)
  moreover have "length (recent_hashes s) = 5 \<and>
      recent_hashes (process_audio H s t) \<noteq> recent_hashes s \<longrightarrow>
      recent_hashes (process_audio H s t) =
        tl (recent_hashes s) @ [hash_audio H (concat (speech_buffer s))]"
    by (auto simp: process_audio_recent check_duplicate_full emits_fresh split: if_splits)
  ultimately show ?thesis by (simp add: max_recent_def)
qed

theorem recent_hashes_bounded_witness:
  "int (length (recent_hashes full_cache)) = max_recent \<and>
   recent_hashes (process_audio example_md5 full_cache (silence_at 5)) \<noteq>
     recent_hashes full_cache \<and>
   recent_hashes (process_audio example_md5 full_cache (silence_at 5)) =
     [''b'', ''c'', ''d'', ''e'', ''1''] \<and>
   int (length (recent_hashes (process_audio example_md5 full_cache (silence_at 5))))
     \<le> max_recent"
proof -
  have h: "int (length (recent_hashes full_cache)) = max_recent \<and>
     recent_hashes (process_audio example_md5 full_cache (silence_at 5)) \<noteq>
       recent_hashes full_cache"
    by (simp add: full_cache_def audio_defs example_defs Let_def)
  have e: "tl (recent_hashes full_cache) @
             [hash_audio example_md5 (concat (speech_buffer full_cache))] =
           [''b'', ''c'', ''d'', ''e'', ''1'']"
    by (simp add: full_cache_def audio_defs example_defs)
  from recent_hashes_bounded [of example_md5 _ _ full_cache "silence_at 5"] h e
  show ?thesis by (simp add: max_recent_def)
qed

subsection \<open>Duplicates\<close>

text \<open>The subsample that is hashed: the samples at the multiples of 100.\<close>

lemma downsample_nth:
  "downsample xs = map (\<lambda>k. xs ! (100 * k)) [0 ..< (length xs + 99) div 100]"
proof (induction xs rule: downsample.induct)
  case 1
  show ?case by simp
next
  case (2 x xs)
  let ?m = "length xs div 100"
  have a: "(length (x # xs) + 99) div 100 = Suc ?m"
    by simp
  have b: "(length (drop 99 xs) + 99) div 100 = ?m"
    by simp
  have c: "map (\<lambda>k. drop 99 xs ! (100 * k)) [0 ..< ?m] =
           map (\<lambda>k. (x # xs) ! (100 * Suc k)) [0 ..< ?m]"
  proof (rule map_cong [OF refl])
    fix k assume "k \<in> set [0 ..< ?m]"
    then have "k < ?m" by simp
    then have "100 * k + 99 < length xs" by arith
    then show "drop 99 xs ! (100 * k) = (x # xs) ! (100 * Suc k)"
      by (simp add: add.commute)
  qed
  show ?case
    unfolding a map_upt_Suc using "2.IH" b c by simp
qed

lemma check_duplicate_keeps:
  assumes "h \<in> set (drop (length recent + Suc n - 5) recent)" and "length recent \<le> 5"
    and "fst (check_duplicate H recent a)"
  shows "h \<in> set (drop (length (snd (check_duplicate H recent a)) + n - 5)
                     (snd (check_duplicate H recent a)))"
proof (cases "length recent = 5")
  case True
  then obtain x xs where r: "recent = x # xs" by (cases recent) auto
  from True assms show ?thesis
    by (auto simp: check_duplicate_def Let_def max_recent_def r drop_Cons' split: if_splits)
next
  case False
  with assms show ?thesis
    by (auto simp: check_duplicate_def Let_def max_recent_def split: if_splits)
qed

lemma check_duplicates_keeps:
  "h \<in> set (drop (length recent + n - 5) recent) \<Longrightarrow> length recent \<le> 5 \<Longrightarrow>
   length (filter (\<lambda>b. b) (fst (check_duplicates H recent as))) \<le> n \<Longrightarrow>
   h \<in> set (snd (check_duplicates H recent as))"
proof (induction as arbitrary: recent n)
  case Nil
  then show ?case by (auto dest: in_set_dropD)
next
  case (Cons a as)
  obtain fresh r1 where c: "check_duplicate H recent a = (fresh, r1)"
    by (cases "check_duplicate H recent a")
  obtain rest r2 where d: "check_duplicates H r1 as = (rest, r2)"
    by (cases "check_duplicates H r1 as")
  show ?case
  proof (cases fresh)
    case True
    with Cons.prems c d obtain m where n: "n = Suc m" by (cases n) auto
    have "h \<in> set (drop (length r1 + m - 5) r1)"
      using check_duplicate_keeps [of h recent m H a] Cons.prems True c n by simp
    moreover have "length r1 \<le> 5"
      using check_duplicate_length [OF Cons.prems(2), of H a] c by simp
    moreover have "length (filter (\<lambda>b. b) (fst (check_duplicates H r1 as))) \<le> m"
      using Cons.prems(3) c d True n by simp
    ultimately have "h \<in> set (snd (check_duplicates H r1 as))"
      by (rule Cons.IH)
    then show ?thesis by (simp add: c d)
  next
    case False
    then have "r1 = recent" using check_duplicate_reject [of H recent a] c by simp
    with Cons.IH [of recent n] Cons.prems c d False show ?thesis by simp
  qed
qed

text \<open>
  C4, as amended: take the recent hashes of any state reached from the initial one, and an
  utterance whose hash is not among them. The duplicate check accepts it and records its
  hash; after fewer than 5 further accepted (recorded) utterances, the check rejects the
  same utterance. The hash is taken from the samples at the multiples of 100.
\<close>

theorem duplicate_rejected_within_capacity:
  assumes "recent = recent_hashes (run_audio H (AudioCapture_init th) ts)"
    and "hash_audio H a \<notin> set recent"
    and "check_duplicate H recent a = (first, r1)"
    and "check_duplicates H r1 between = (answers, r2)"
    and "length (filter (\<lambda>b. b) answers) < 5"
  shows "first \<and> hash_audio H a \<in> set r1 \<and> \<not> fst (check_duplicate H r2 a) \<and>
         hash_audio H a =
           take 16 (H (map (\<lambda>k. a ! (100 * k)) [0 ..< (length a + 99) div 100]))"
proof -
  have l: "length recent \<le> 5"
    unfolding assms(1) by (rule run_audio_recent_length [OF init_recent_length])
  from assms(2,3) l have f: first
    and r1: "r1 = (if length recent = 5 then tl (recent @ [hash_audio H a])
                   else recent @ [hash_audio H a])"
    by (auto simp: check_duplicate_def Let_def max_recent_def)
  have len: "length r1 \<le> 5"
    using check_duplicate_length [OF l, of H a] assms(3) by simp
  have last: "hash_audio H a \<in> set (drop (length r1 + 4 - 5) r1)"
  proof (cases "length recent = 5")
    case True
    then obtain x xs where "recent = x # xs" by (cases recent) auto
    with True show ?thesis by (simp add: r1)
  next
    case False
    then show ?thesis by (simp add: r1)
  qed
  then have in1: "hash_audio H a \<in> set r1" by (rule in_set_dropD)
  from check_duplicates_keeps [OF last len, of H between] assms(4,5)
  have "hash_audio H a \<in> set r2" by simp
  then have "\<not> fst (check_duplicate H r2 a)" by (simp add: check_duplicate_def)
  moreover have "hash_audio H a =
      take 16 (H (map (\<lambda>k. a ! (100 * k)) [0 ..< (length a + 99) div 100]))"
    by (simp add: hash_audio_def downsample_nth)
  ultimately show ?thesis using f in1 by simp
qed

theorem duplicate_rejected_within_capacity_witness:
  "[] = recent_hashes (run_audio example_md5 (AudioCapture_init 0.5 :: nat AudioCapture) []) \<and>
   hash_audio example_md5 [1, 1] \<notin> set [] \<and>
   check_duplicate example_md5 [] [1, 1] = (True, [''1'']) \<and>
   check_duplicates example_md5 [''1''] [[0, 1], [1, 0], [], [1, 1, 1]] =
     ([True, False, True, False], [''1'', ''0'', []]) \<and>
   length (filter (\<lambda>b. b) [True, False, True, False]) < 5 \<and>
   \<not> fst (check_duplicate example_md5 [''1'', ''0'', []] [1, 1])"
proof -
  have h1: "[] = recent_hashes (run_audio example_md5 (AudioCapture_init 0.5 :: nat AudioCapture) [])"
    by (simp add: AudioCapture_init_def)
  have h2: "hash_audio example_md5 [1, 1] \<notin> set []" by simp
  have h3: "check_duplicate example_md5 [] [1, 1] = (True, [''1''])"
    by (simp add: check_duplicate_def hash_audio_def example_md5_def max_recent_def)
  have h4: "check_duplicates example_md5 [''1''] [[0, 1], [1, 0], [], [1, 1, 1]] =
     ([True, False, True, False], [''1'', ''0'', []])"
    by (simp add: check_duplicate_def hash_audio_def example_md5_def max_recent_def)
  have h5: "length (filter (\<lambda>b. b) [True, False, True, False]) < 5" by simp
  from duplicate_rejected_within_capacity [OF h1 h2 h3 h4 h5] h1 h2 h3 h4 h5
  show ?thesis by simp
qed

text \<open>
  The claim as stated fails: after the utterance \<open>[1, 3]\<close> is accepted, the first call
  with the different utterance \<open>[1, 2]\<close> is rejected, since both have the same sample at
  index 0; and a second call with \<open>[1, 3]\<close> itself is the first of a pair with its third.
\<close>

theorem first_call_rejected:
  "fst (check_duplicate example_md5 [] [1, 3]) \<and>
   \<not> fst (check_duplicate example_md5 (snd (check_duplicate example_md5 [] [1, 3])) [1, 2]) \<and>
   \<not> fst (check_duplicate example_md5 (snd (check_duplicate example_md5 [] [1, 3])) [1, 3])"
  by (simp add: check_duplicate_def hash_audio_def example_md5_def max_recent_def)


subsection \<open>The cooldown\<close>

lemma run_audio_dropped:
  "\<forall>u \<in> set us. cooldown_active s (time_check u) \<Longrightarrow> run_audio H s us = s"
  by (induction us) (simp_all add: process_audio_dropped)

text \<open>
  C5: the cooldown check comes first: a chunk that arrives while the cooldown is active
  leaves the state as it is (the chunk is neither scored nor buffered), and a non-empty
  chunk that arrives otherwise is scored. The cooldown is started exactly when an
  utterance is put on the speech queue, with the duration 1.0. After it is started at
  time \<open>time_arm t\<close>, it is active at every time before \<open>time_arm t + 1.0\<close>, so that the
  chunks arriving from \<open>time_arm t\<close> until then are all dropped, and it is inactive at
  every time from \<open>time_arm t + 1.0\<close> on.
\<close>

theorem cooldown_gate:
  "(cooldown_active s (time_check t) \<longrightarrow> process_audio H s t = s) \<and>
   (\<not> cooldown_active s (time_check t) \<and> chunk t \<noteq> [] \<longrightarrow>
      take (Suc (length (model_calls (vad s)))) (model_calls (vad (process_audio H s t))) =
        model_calls (vad s) @ [Forward]) \<and>
   (speech_queue (process_audio H s t) = speech_queue s \<longrightarrow>
      cooldown_until (process_audio H s t) = cooldown_until s) \<and>
   (speech_queue (process_audio H s t) \<noteq> speech_queue s \<longrightarrow>
      cooldown_duration = 1.0 \<and>
      cooldown_until (process_audio H s t) = time_arm t + cooldown_duration \<and>
      (\<forall>now. cooldown_active (process_audio H s t) now \<longleftrightarrow>
               now < time_arm t + cooldown_duration) \<and>
      (\<forall>us. (\<forall>u \<in> set us. time_arm t \<le> time_check u \<and>
                             time_check u < time_arm t + cooldown_duration) \<longrightarrow>
            run_audio H (process_audio H s t) us = process_audio H s t) \<and>
      (\<forall>u. time_arm t + cooldown_duration \<le> time_check u \<longrightarrow>
            \<not> cooldown_active (process_audio H s t) (time_check u)))"
proof -
  let ?s' = "process_audio H s t"
  have a: "cooldown_active s (time_check t) \<longrightarrow> ?s' = s"
    by (simp add: process_audio_dropped)
  have b: "\<not> cooldown_active s (time_check t) \<and> chunk t \<noteq> [] \<longrightarrow>
      take (Suc (length (model_calls (vad s)))) (model_calls (vad ?s')) =
        model_calls (vad s) @ [Forward]"
    by (simp add: process_audio_model_calls)
  have c: "speech_queue ?s' = speech_queue s \<longrightarrow> cooldown_until ?s' = cooldown_until s"
    by (simp add: process_audio_cooldown emits_queue)
  have d: "cooldown_until ?s' = time_arm t + cooldown_duration"
    if "speech_queue ?s' \<noteq> speech_queue s"
    using that by (simp add: process_audio_cooldown emits_queue)
  have e: "run_audio H ?s' us = ?s'"
    if "speech_queue ?s' \<noteq> speech_queue s"
      and "\<forall>u \<in> set us. time_arm t \<le> time_check u \<and>
                          time_check u < time_arm t + cooldown_duration" for us
    using that(2) by (intro run_audio_dropped) (simp add: cooldown_active_def d [OF that(1)])
  show ?thesis
    using a b c d e by (auto simp: cooldown_active_def cooldown_duration_def)
qed

lemma before_end_state:
  "before_end =
     \<lparr>vad = \<lparr>threshold = 0.5, model_calls = replicate 32 Forward\<rparr>,
      speech_queue = [],
      speech_buffer = [[1], [1], [1], [1], [1], [1], [1], [1], [0], [0], [0]],
      silence_chunks = 24, speech_chunk_count = 8, cooldown_until = 0,
      recent_hashes = []\<rparr>"
  by (simp add: before_end_def example_defs audio_defs Let_def numeral_eq_Suc)

lemma after_end_state:
  "process_audio example_md5 before_end (silence_at 10) =
     \<lparr>vad = \<lparr>threshold = 0.5, model_calls = replicate 33 Forward @ [ResetStates]\<rparr>,
      speech_queue = [[1, 1, 1, 1, 1, 1, 1, 1, 0, 0, 0]],
      speech_buffer = [], silence_chunks = 0, speech_chunk_count = 0, cooldown_until = 11,
      recent_hashes = [''1'']\<rparr>"
  by (simp add: before_end_state example_defs audio_defs Let_def numeral_eq_Suc)

theorem cooldown_gate_witness:
  "\<not> cooldown_active before_end (time_check (silence_at 10)) \<and>
   chunk (silence_at 10) \<noteq> [] \<and>
   speech_queue (process_audio example_md5 before_end (silence_at 10))
     \<noteq> speech_queue before_end \<and>
   cooldown_until (process_audio example_md5 before_end (silence_at 10)) = 10 + 1.0 \<and>
   run_audio example_md5 (process_audio example_md5 before_end (silence_at 10))
       [speech_at 10, speech_at 10.5] =
     process_audio example_md5 before_end (silence_at 10) \<and>
   \<not> cooldown_active (process_audio example_md5 before_end (silence_at 10))
       (time_check (speech_at 11)) \<and>
   cooldown_active (process_audio example_md5 before_end (silence_at 10))
       (time_check (speech_at 10.5)) \<and>
   speech_queue (process_audio example_md5
       (process_audio example_md5 before_end (silence_at 10)) (speech_at 10.5)) =
     speech_queue (process_audio example_md5 before_end (silence_at 10)) \<and>
   process_audio example_md5 (process_audio example_md5 before_end (silence_at 10))
       (speech_at 10.5) =
     process_audio example_md5 before_end (silence_at 10)"
proof -
  let ?s' = "process_audio example_md5 before_end (silence_at 10)"
  have h1: "\<not> cooldown_active before_end (time_check (silence_at 10)) \<and>
            chunk (silence_at 10) \<noteq> []"
    by (simp add: before_end_state cooldown_active_def silence_at_def)
  have h2: "speech_queue ?s' \<noteq> speech_queue before_end"
    by (simp only: after_end_state) (simp add: before_end_state)
  have h3: "\<forall>u \<in> set [speech_at 10, speech_at 10.5].
              time_arm (silence_at 10) \<le> time_check u \<and>
              time_check u < time_arm (silence_at 10) + cooldown_duration"
    by (simp add: speech_at_def silence_at_def cooldown_duration_def)
  have h4: "time_arm (silence_at 10) + cooldown_duration \<le> time_check (speech_at 11)"
    by (simp add: speech_at_def silence_at_def cooldown_duration_def)
  have h5: "cooldown_active ?s' (time_check (speech_at 10.5))"
    by (simp only: after_end_state) (simp add: cooldown_active_def speech_at_def)
  have t: "time_arm (silence_at 10) + cooldown_duration = 10 + 1.0"
    by (simp add: silence_at_def cooldown_duration_def)
  note a = cooldown_gate [of before_end "silence_at 10" example_md5]
  note b = cooldown_gate [of ?s' "speech_at 10.5" example_md5]
  from a h2 have a1: "cooldown_until ?s' = time_arm (silence_at 10) + cooldown_duration"
    by blast
  from a h2 h3 have a2: "run_audio example_md5 ?s' [speech_at 10, speech_at 10.5] = ?s'"
    by blast
  from a h2 h4 have a3: "\<not> cooldown_active ?s' (time_check (speech_at 11))"
    by blast
  from b h5 have b1: "process_audio example_md5 ?s' (speech_at 10.5) = ?s'"
    by blast
  from h1 h2 h5 a1 a2 a3 b1 t show ?thesis by simp
qed

section \<open>The application's segmentation\<close>

lemma process_utterance_fields:
  "y_vad (process_utterance env y a) = y_vad y"
  "y_speech_buffer (process_utterance env y a) = y_speech_buffer y"
  "y_speech_chunk_count (process_utterance env y a) = y_speech_chunk_count y"
  "y_silence_chunks (process_utterance env y a) = y_silence_chunks y"
  "handed_over (process_utterance env y a) = handed_over y @ [a]"
  by (simp_all add: process_utterance_def transcribe_utterance_def Let_def
        split: option.splits prod.splits)

lemma on_audio_chunk_model_calls:
  "model_calls (y_vad (on_audio_chunk env y t)) =
     model_calls (y_vad y)
     @ (if y_dropped y t \<or> chunk t = [] then [] else [Forward])
     @ (if y_completes y t then [ResetStates] else [])"
  by (simp add: on_audio_chunk_def y_completes_def y_dropped_def classified_speech_def
        is_speech_def Let_def vad_reset_def process_utterance_fields)

lemma on_audio_chunk_to_idle:
  "y_completes y t \<longleftrightarrow>
     y_speech_buffer y \<noteq> [] \<and> y_speech_buffer (on_audio_chunk env y t) = []"
  by (auto simp add: on_audio_chunk_def y_completes_def y_dropped_def classified_speech_def
        is_speech_def Let_def)

lemma on_audio_chunk_idle_after:
  "y_completes y t \<Longrightarrow>
     y_speech_buffer (on_audio_chunk env y t) = [] \<and>
     y_speech_chunk_count (on_audio_chunk env y t) = 0 \<and>
     y_silence_chunks (on_audio_chunk env y t) = 0"
  by (auto simp add: on_audio_chunk_def y_completes_def y_dropped_def classified_speech_def
        is_speech_def Let_def split: if_splits)

lemma on_audio_chunk_handed_over:
  "handed_over (on_audio_chunk env y t) =
     (if y_hands_over y t then handed_over y @ [concat (y_speech_buffer y)]
      else handed_over y)"
  by (auto simp add: on_audio_chunk_def y_hands_over_def y_completes_def y_dropped_def
        classified_speech_def is_speech_def Let_def process_utterance_fields
        max_silence_chunks_def)

section \<open>The classifier is reset at the end of every utterance\<close>

text \<open>
  C2: the calls made on the classifier's model by one chunk, for \<open>AudioCapture\<close> and for
  \<open>Yappatron\<close>: the chunk is scored unless it is dropped or empty, and then
  \<open>reset_states\<close> is called once if the chunk ends the utterance (whether the utterance
  is then emitted, suppressed as a duplicate or discarded as too short) and not at all
  otherwise. The reset is the last call of the step, so it precedes the scoring of the
  next chunk. A chunk ends the utterance exactly when the speech buffer goes from
  non-empty to empty.
\<close>

theorem reset_once_per_utterance:
  "model_calls (vad (process_audio H s t)) =
     model_calls (vad s)
     @ (if cooldown_active s (time_check t) \<or> chunk t = [] then [] else [Forward])
     @ (if completes s t then [ResetStates] else []) \<and>
   (completes s t \<longleftrightarrow> speech_buffer s \<noteq> [] \<and> speech_buffer (process_audio H s t) = []) \<and>
   model_calls (y_vad (on_audio_chunk env y t)) =
     model_calls (y_vad y)
     @ (if y_dropped y t \<or> chunk t = [] then [] else [Forward])
     @ (if y_completes y t then [ResetStates] else []) \<and>
   (y_completes y t \<longleftrightarrow>
      y_speech_buffer y \<noteq> [] \<and> y_speech_buffer (on_audio_chunk env y t) = [])"
  using process_audio_model_calls [of H s t] process_audio_to_idle [of s t H]
    on_audio_chunk_model_calls [of env y t] on_audio_chunk_to_idle [of y t env]
  by simp

lemma before_second_end_state:
  "before_second_end =
     \<lparr>vad = \<lparr>threshold = 0.5,
             model_calls = replicate 33 Forward @ [ResetStates] @ replicate 32 Forward\<rparr>,
      speech_queue = [[1, 1, 1, 1, 1, 1, 1, 1, 0, 0, 0]],
      speech_buffer = [[1], [1], [1], [1], [1], [1], [1], [1], [0], [0], [0]],
      silence_chunks = 24, speech_chunk_count = 8, cooldown_until = 11,
      recent_hashes = [''1'']\<rparr>"
proof -
  have "before_second_end =
          run_audio example_md5 (process_audio example_md5 before_end (silence_at 10))
            (utterance_at 20)"
    by (simp add: before_second_end_def second_utterance_def run_audio_append before_end_def)
  then show ?thesis
    by (simp only: after_end_state)
       (simp add: example_defs audio_defs Let_def numeral_eq_Suc)
qed

theorem reset_once_per_utterance_witness:
  "completes before_end (silence_at 10) \<and>
   model_calls (vad (process_audio example_md5 before_end (silence_at 10))) =
     model_calls (vad before_end) @ [Forward] @ [ResetStates] \<and>
   completes before_second_end (silence_at 20) \<and>
   model_calls (vad (process_audio example_md5 before_second_end (silence_at 20))) =
     model_calls (vad before_second_end) @ [Forward] @ [ResetStates] \<and>
   \<not> completes (process_audio example_md5 before_end (silence_at 10)) (speech_at 11) \<and>
   model_calls (vad (process_audio example_md5
       (process_audio example_md5 before_end (silence_at 10)) (speech_at 11))) =
     model_calls (vad (process_audio example_md5 before_end (silence_at 10))) @ [Forward] \<and>
   \<not> y_completes (Yappatron_init None :: (nat, unit, unit) Yappatron) (speech_at 1) \<and>
   model_calls (y_vad (on_audio_chunk example_env (Yappatron_init None) (speech_at 1))) =
     [Forward]"
proof -
  let ?s' = "process_audio example_md5 before_end (silence_at 10)"
  let ?y = "Yappatron_init None :: (nat, unit, unit) Yappatron"
  have h1: "completes before_end (silence_at 10) \<and>
            \<not> (cooldown_active before_end (time_check (silence_at 10)) \<or>
               chunk (silence_at 10) = [])"
    by (simp add: before_end_state completes_def cooldown_active_def classified_speech_eq
          silence_at_def max_silence_chunks_def)
  have h2: "completes before_second_end (silence_at 20) \<and>
            \<not> (cooldown_active before_second_end (time_check (silence_at 20)) \<or>
               chunk (silence_at 20) = [])"
    by (simp add: before_second_end_state completes_def cooldown_active_def
          classified_speech_eq silence_at_def max_silence_chunks_def)
  have h3: "\<not> completes ?s' (speech_at 11) \<and>
            \<not> (cooldown_active ?s' (time_check (speech_at 11)) \<or> chunk (speech_at 11) = [])"
    by (simp only: after_end_state)
       (simp add: completes_def cooldown_active_def classified_speech_eq speech_at_def)
  have h4: "\<not> y_completes ?y (speech_at 1) \<and>
            \<not> (y_dropped ?y (speech_at 1) \<or> chunk (speech_at 1) = []) \<and>
            model_calls (y_vad ?y) = []"
    by (simp add: Yappatron_init_def y_completes_def y_dropped_def classified_speech_eq
          speech_at_def)
  note a = reset_once_per_utterance [of example_md5 before_end "silence_at 10" example_env ?y,
             THEN conjunct1]
  note b = reset_once_per_utterance [of example_md5 before_second_end "silence_at 20"
             example_env ?y, THEN conjunct1]
  note c = reset_once_per_utterance [of example_md5 ?s' "speech_at 11" example_env ?y,
             THEN conjunct1]
  note d = reset_once_per_utterance [of example_md5 before_end "speech_at 1" example_env ?y,
             THEN conjunct2, THEN conjunct2, THEN conjunct1]
  from a h1 have a': "model_calls (vad ?s') =
      model_calls (vad before_end) @ [Forward] @ [ResetStates]"
    by simp
  from b h2 have b': "model_calls (vad (process_audio example_md5 before_second_end
        (silence_at 20))) = model_calls (vad before_second_end) @ [Forward] @ [ResetStates]"
    by simp
  from c h3 have c': "model_calls (vad (process_audio example_md5 ?s' (speech_at 11))) =
      model_calls (vad ?s') @ [Forward]"
    by simp
  from d h4 have d': "model_calls (y_vad (on_audio_chunk example_env ?y (speech_at 1))) =
      [Forward]"
    by simp
  from h1 h2 h3 h4 a' b' c' d' show ?thesis by blast
qed

section \<open>When an utterance is emitted\<close>

lemma counters_ok_init: "counters_ok (AudioCapture_init th) []"
  by (simp add: counters_ok_def AudioCapture_init_def speech_count_def trailing_silence_def)

lemma counters_ok_step:
  assumes "counters_ok s acc"
  shows "counters_ok (process_audio H s t)
           (if speech_buffer (process_audio H s t) = [] then []
            else if cooldown_active s (time_check t) then acc
            else acc @ [classified_speech (vad s) t])"
  using assms
  by (auto simp add: counters_ok_def process_audio_def classified_speech_def is_speech_def
        Let_def end_of_utterance_def reset_state_def speech_count_def trailing_silence_def
        split: if_splits)

lemma counters_ok_run:
  "counters_ok s acc \<Longrightarrow> counters_ok (run_audio H s ts) (frames_since_idle H s acc ts)"
proof (induction ts arbitrary: s acc)
  case Nil
  then show ?case by simp
next
  case (Cons t ts)
  from counters_ok_step [OF Cons.prems, of H t] show ?case
    by (simp add: Let_def Cons.IH)
qed

lemma y_counters_ok_init: "y_counters_ok (Yappatron_init sp) []"
  by (simp add: y_counters_ok_def Yappatron_init_def speech_count_def trailing_silence_def)

lemma y_counters_ok_step:
  assumes "y_counters_ok y acc"
  shows "y_counters_ok (on_audio_chunk env y t)
           (if y_speech_buffer (on_audio_chunk env y t) = [] then []
            else if y_dropped y t then acc
            else acc @ [classified_speech (y_vad y) t])"
  using assms
  by (auto simp add: y_counters_ok_def on_audio_chunk_def y_dropped_def classified_speech_def
        is_speech_def Let_def speech_count_def trailing_silence_def process_utterance_fields
        split: if_splits)

lemma y_counters_ok_run:
  "y_counters_ok y acc \<Longrightarrow> y_counters_ok (run_chunks y ts) (y_frames_since_idle y acc ts)"
proof (induction ts arbitrary: y acc)
  case Nil
  then show ?case by simp
next
  case (Cons a ts)
  obtain env t where a: "a = (env, t)" by (cases a)
  from y_counters_ok_step [OF Cons.prems, of env t] show ?case
    by (simp add: a Let_def Cons.IH)
qed

text \<open>
  With the counters in agreement, a chunk ends the utterance exactly when it is
  processed and the silence at the end of the frames since the last idle state, this
  chunk included, reaches \<open>max_silence_chunks\<close>.
\<close>

lemma trailing_silence_snoc:
  "trailing_silence (frames @ [b]) = (if b then 0 else trailing_silence frames + 1)"
  by (simp add: trailing_silence_def)

lemma speech_count_snoc:
  "speech_count (frames @ [b]) = (if b then speech_count frames + 1 else speech_count frames)"
  by (simp add: speech_count_def)

lemma trailing_silence_Nil: "trailing_silence [] = 0"
  by (simp add: trailing_silence_def)

lemma completes_frames:
  assumes "counters_ok s frames"
  shows "completes s t \<longleftrightarrow>
           \<not> cooldown_active s (time_check t) \<and>
           trailing_silence (frames @ [classified_speech (vad s) t]) \<ge> max_silence_chunks"
  using assms
  by (auto simp: completes_def counters_ok_def trailing_silence_snoc trailing_silence_Nil
        max_silence_chunks_def)

lemma y_completes_frames:
  assumes "y_counters_ok y frames"
  shows "y_completes y t \<longleftrightarrow>
           \<not> y_dropped y t \<and>
           trailing_silence (frames @ [classified_speech (y_vad y) t]) \<ge> max_silence_chunks"
  using assms
  by (auto simp: y_completes_def y_counters_ok_def trailing_silence_snoc trailing_silence_Nil
        max_silence_chunks_def)

lemma emits_frames:
  assumes "counters_ok s frames"
  shows "emits H s t \<longleftrightarrow>
           \<not> cooldown_active s (time_check t) \<and>
           trailing_silence (frames @ [classified_speech (vad s) t]) \<ge> max_silence_chunks \<and>
           speech_count (frames @ [classified_speech (vad s) t]) \<ge> min_speech_chunks \<and>
           hash_audio H (concat (speech_buffer s)) \<notin> set (recent_hashes s)"
proof -
  have "speech_count (frames @ [classified_speech (vad s) t]) = speech_chunk_count s"
    if "completes s t"
    using that assms by (simp add: completes_def counters_ok_def speech_count_snoc)
  then show ?thesis
    unfolding emits_def using completes_frames [OF assms, of t] by auto
qed

lemma y_hands_over_frames:
  assumes "y_counters_ok y frames"
  shows "y_hands_over y t \<longleftrightarrow>
           \<not> y_dropped y t \<and>
           trailing_silence (frames @ [classified_speech (y_vad y) t]) \<ge> max_silence_chunks \<and>
           speech_count (frames @ [classified_speech (y_vad y) t]) \<ge> min_speech_chunks"
proof -
  have "speech_count (frames @ [classified_speech (y_vad y) t]) = y_speech_chunk_count y"
    if "y_completes y t"
    using that assms by (simp add: y_completes_def y_counters_ok_def speech_count_snoc)
  then show ?thesis
    unfolding y_hands_over_def using y_completes_frames [OF assms, of t] by auto
qed

text \<open>
  C1, as amended. Take any sequence of chunks fed from the initial (idle) state, and let
  \<open>frames\<close> be the classifications of the chunks processed since the state was last idle,
  the next chunk included. The counters of the state are the number of speech frames and
  the length of the final silence among them. \<open>AudioCapture\<close> puts an utterance (the
  concatenated buffer) on its queue with the next chunk if and only if the chunk is
  processed, the final silence reaches \<open>max_silence_chunks\<close> = 25, the speech frames
  number at least \<open>min_speech_chunks\<close> = 8, and the hash of the utterance is not among
  the recent hashes; \<open>Yappatron\<close>, which has no duplicate check, hands the utterance to
  \<open>_process_utterance\<close> if and only if the first three hold. Whenever the final silence
  reaches 25 on a processed chunk, emitted or not, the state is idle afterwards: empty
  buffer and zero counters.
\<close>

theorem utterance_emitted_iff:
  assumes "s = run_audio H (AudioCapture_init th) ts"
    and "frames = frames_since_idle H (AudioCapture_init th) [] ts
                    @ [classified_speech (vad s) t]"
    and "y = run_chunks (Yappatron_init sp) ets"
    and "y_frames = y_frames_since_idle (Yappatron_init sp) [] ets
                      @ [classified_speech (y_vad y) u]"
  shows
    "speech_chunk_count s = speech_count (butlast frames) \<and>
     silence_chunks s = trailing_silence (butlast frames) \<and>
     (speech_queue (process_audio H s t) \<noteq> speech_queue s \<longleftrightarrow>
        \<not> cooldown_active s (time_check t) \<and>
        trailing_silence frames \<ge> max_silence_chunks \<and>
        speech_count frames \<ge> min_speech_chunks \<and>
        hash_audio H (concat (speech_buffer s)) \<notin> set (recent_hashes s)) \<and>
     (speech_queue (process_audio H s t) \<noteq> speech_queue s \<longrightarrow>
        speech_queue (process_audio H s t) = speech_queue s @ [concat (speech_buffer s)]) \<and>
     (\<not> cooldown_active s (time_check t) \<and> trailing_silence frames \<ge> max_silence_chunks \<longrightarrow>
        speech_buffer (process_audio H s t) = [] \<and>
        speech_chunk_count (process_audio H s t) = 0 \<and>
        silence_chunks (process_audio H s t) = 0) \<and>
     y_speech_chunk_count y = speech_count (butlast y_frames) \<and>
     y_silence_chunks y = trailing_silence (butlast y_frames) \<and>
     (handed_over (on_audio_chunk env y u) \<noteq> handed_over y \<longleftrightarrow>
        \<not> y_dropped y u \<and>
        trailing_silence y_frames \<ge> max_silence_chunks \<and>
        speech_count y_frames \<ge> min_speech_chunks) \<and>
     (handed_over (on_audio_chunk env y u) \<noteq> handed_over y \<longrightarrow>
        handed_over (on_audio_chunk env y u) = handed_over y @ [concat (y_speech_buffer y)]) \<and>
     (\<not> y_dropped y u \<and> trailing_silence y_frames \<ge> max_silence_chunks \<longrightarrow>
        y_speech_buffer (on_audio_chunk env y u) = [] \<and>
        y_speech_chunk_count (on_audio_chunk env y u) = 0 \<and>
        y_silence_chunks (on_audio_chunk env y u) = 0)"
proof -
  let ?fs = "frames_since_idle H (AudioCapture_init th) [] ts"
  let ?ys = "y_frames_since_idle (Yappatron_init sp) [] ets"
  have ok: "counters_ok s ?fs"
    unfolding assms(1) by (rule counters_ok_run [OF counters_ok_init])
  have yok: "y_counters_ok y ?ys"
    unfolding assms(3) by (rule y_counters_ok_run [OF y_counters_ok_init])
  have b: "butlast frames = ?fs" "butlast y_frames = ?ys"
    by (simp_all add: assms(2,4))
  have a1: "speech_chunk_count s = speech_count (butlast frames) \<and>
            silence_chunks s = trailing_silence (butlast frames)"
    using ok by (simp add: b counters_ok_def)
  have a2: "speech_queue (process_audio H s t) \<noteq> speech_queue s \<longleftrightarrow>
        \<not> cooldown_active s (time_check t) \<and>
        trailing_silence frames \<ge> max_silence_chunks \<and>
        speech_count frames \<ge> min_speech_chunks \<and>
        hash_audio H (concat (speech_buffer s)) \<notin> set (recent_hashes s)"
    using emits_frames [OF ok, of H t] by (simp add: emits_queue assms(2))
  have a3: "speech_queue (process_audio H s t) \<noteq> speech_queue s \<longrightarrow>
        speech_queue (process_audio H s t) = speech_queue s @ [concat (speech_buffer s)]"
    by (simp add: process_audio_queue)
  have a4: "\<not> cooldown_active s (time_check t) \<and>
            trailing_silence frames \<ge> max_silence_chunks \<longrightarrow>
        speech_buffer (process_audio H s t) = [] \<and>
        speech_chunk_count (process_audio H s t) = 0 \<and>
        silence_chunks (process_audio H s t) = 0"
    using completes_frames [OF ok, of t] process_audio_idle_after [of s t H]
    by (simp add: assms(2))
  have y1: "y_speech_chunk_count y = speech_count (butlast y_frames) \<and>
            y_silence_chunks y = trailing_silence (butlast y_frames)"
    using yok by (simp add: b y_counters_ok_def)
  have y2: "handed_over (on_audio_chunk env y u) \<noteq> handed_over y \<longleftrightarrow>
        \<not> y_dropped y u \<and>
        trailing_silence y_frames \<ge> max_silence_chunks \<and>
        speech_count y_frames \<ge> min_speech_chunks"
    using y_hands_over_frames [OF yok, of u]
    by (simp add: on_audio_chunk_handed_over assms(4))
  have y3: "handed_over (on_audio_chunk env y u) \<noteq> handed_over y \<longrightarrow>
        handed_over (on_audio_chunk env y u) = handed_over y @ [concat (y_speech_buffer y)]"
    by (simp add: on_audio_chunk_handed_over)
  have y4: "\<not> y_dropped y u \<and> trailing_silence y_frames \<ge> max_silence_chunks \<longrightarrow>
        y_speech_buffer (on_audio_chunk env y u) = [] \<and>
        y_speech_chunk_count (on_audio_chunk env y u) = 0 \<and>
        y_silence_chunks (on_audio_chunk env y u) = 0"
    using y_completes_frames [OF yok, of u] on_audio_chunk_idle_after [of y u env]
    by (simp add: assms(4))
  from a1 a2 a3 a4 y1 y2 y3 y4 show ?thesis by blast
qed

lemma y_before_end_state:
  "y_before_end =
     \<lparr>speaker = None, y_vad = \<lparr>threshold = 0.5, model_calls = replicate 32 Forward\<rparr>,
      y_speech_buffer = [[1], [1], [1], [1], [1], [1], [1], [1], [0], [0], [0]],
      y_silence_chunks = 24, y_speech_chunk_count = 8, y_cooldown_until = 0,
      is_speaking = True, paused = False, server_sent = [SpeechStart], handed_over = [],
      utterance_queue = []\<rparr>"
  by (simp add: y_before_end_def Yappatron_init_def example_defs on_audio_chunk_def
        is_speech_def max_silence_chunks_def Let_def numeral_eq_Suc)

lemma y_after_end_handed_over:
  "handed_over (on_audio_chunk example_env y_before_end (silence_at 10)) =
     [[1, 1, 1, 1, 1, 1, 1, 1, 0, 0, 0]]"
  by (simp add: y_before_end_state on_audio_chunk_def is_speech_def max_silence_chunks_def
        min_speech_chunks_def Let_def silence_at_def process_utterance_fields)

theorem utterance_emitted_iff_witness:
  "speech_queue (process_audio example_md5 before_end (silence_at 10))
     \<noteq> speech_queue before_end \<and>
   \<not> cooldown_active before_end (time_check (silence_at 10)) \<and>
   max_silence_chunks \<le>
     trailing_silence (frames_since_idle example_md5 (AudioCapture_init 0.5) []
                         (utterance_at 10)
                       @ [classified_speech (vad before_end) (silence_at 10)]) \<and>
   min_speech_chunks \<le>
     speech_count (frames_since_idle example_md5 (AudioCapture_init 0.5) []
                     (utterance_at 10)
                   @ [classified_speech (vad before_end) (silence_at 10)]) \<and>
   speech_queue (process_audio example_md5 before_end (silence_at 10)) =
     speech_queue before_end @ [concat (speech_buffer before_end)] \<and>
   speech_buffer (process_audio example_md5 before_end (silence_at 10)) = [] \<and>
   speech_chunk_count (process_audio example_md5 before_end (silence_at 10)) = 0 \<and>
   silence_chunks (process_audio example_md5 before_end (silence_at 10)) = 0 \<and>
   handed_over (on_audio_chunk example_env y_before_end (silence_at 10))
     \<noteq> handed_over y_before_end \<and>
   \<not> y_dropped y_before_end (silence_at 10) \<and>
   max_silence_chunks \<le>
     trailing_silence (y_frames_since_idle (Yappatron_init None) []
                         (map (Pair example_env) (utterance_at 10))
                       @ [classified_speech (y_vad y_before_end) (silence_at 10)]) \<and>
   min_speech_chunks \<le>
     speech_count (y_frames_since_idle (Yappatron_init None) []
                     (map (Pair example_env) (utterance_at 10))
                   @ [classified_speech (y_vad y_before_end) (silence_at 10)]) \<and>
   y_speech_buffer (on_audio_chunk example_env y_before_end (silence_at 10)) = []"
proof -
  have h: "speech_queue (process_audio example_md5 before_end (silence_at 10))
             \<noteq> speech_queue before_end"
    by (simp only: after_end_state) (simp add: before_end_state)
  have k: "handed_over (on_audio_chunk example_env y_before_end (silence_at 10))
             \<noteq> handed_over y_before_end"
    by (simp only: y_after_end_handed_over) (simp add: y_before_end_state)
  note t = utterance_emitted_iff [OF before_end_def refl y_before_end_def refl,
             of "silence_at 10" "silence_at 10" example_env]
  from t h k show ?thesis by blast
qed

text \<open>
  The claim as stated fails for \<open>AudioCapture\<close>: when the chunks of an utterance that was
  emitted at time 10 arrive again at time 20, after the cooldown, the eight speech frames
  are counted and the silence reaches 25 on a processed chunk, but nothing is put on the
  queue, since the hash of the utterance is among the recent ones.
\<close>

theorem duplicate_utterance_not_emitted:
  "\<not> cooldown_active before_second_end (time_check (silence_at 20)) \<and>
   \<not> classified_speech (vad before_second_end) (silence_at 20) \<and>
   speech_chunk_count before_second_end = 8 \<and>
   silence_chunks before_second_end + 1 = 25 \<and>
   min_speech_chunks \<le>
     speech_count (frames_since_idle example_md5 (AudioCapture_init 0.5) [] second_utterance
                   @ [classified_speech (vad before_second_end) (silence_at 20)]) \<and>
   max_silence_chunks \<le>
     trailing_silence (frames_since_idle example_md5 (AudioCapture_init 0.5) []
                         second_utterance
                       @ [classified_speech (vad before_second_end) (silence_at 20)]) \<and>
   speech_queue (process_audio example_md5 before_second_end (silence_at 20)) =
     speech_queue before_second_end \<and>
   speech_buffer (process_audio example_md5 before_second_end (silence_at 20)) = []"
proof -
  have ok: "counters_ok before_second_end
              (frames_since_idle example_md5 (AudioCapture_init 0.5) [] second_utterance)"
    unfolding before_second_end_def by (rule counters_ok_run [OF counters_ok_init])
  have c: "\<not> cooldown_active before_second_end (time_check (silence_at 20)) \<and>
           \<not> classified_speech (vad before_second_end) (silence_at 20) \<and>
           speech_chunk_count before_second_end = 8 \<and>
           silence_chunks before_second_end + 1 = 25"
    by (simp add: before_second_end_state cooldown_active_def classified_speech_eq
          silence_at_def)
  have f: "min_speech_chunks \<le>
     speech_count (frames_since_idle example_md5 (AudioCapture_init 0.5) [] second_utterance
                   @ [classified_speech (vad before_second_end) (silence_at 20)]) \<and>
   max_silence_chunks \<le>
     trailing_silence (frames_since_idle example_md5 (AudioCapture_init 0.5) []
                         second_utterance
                       @ [classified_speech (vad before_second_end) (silence_at 20)])"
    using ok c
    by (simp add: counters_ok_def speech_count_snoc trailing_silence_snoc
          min_speech_chunks_def max_silence_chunks_def)
  have q: "speech_queue (process_audio example_md5 before_second_end (silence_at 20)) =
             speech_queue before_second_end \<and>
           speech_buffer (process_audio example_md5 before_second_end (silence_at 20)) = []"
    by (simp add: before_second_end_state example_defs audio_defs Let_def)
  from c f q show ?thesis by simp
qed


section \<open>Resetting twice\<close>




end
